theory Spec2Isabelle
  imports Main
begin

section \<open>JavaScript values and the runtime operations the handlers use\<close>

text \<open>
  The handlers of \<^verbatim>\<open>src/index.ts\<close> work on untyped values (\<^verbatim>\<open>req: any\<close>,
  \<^verbatim>\<open>response: any\<close>), so the model is untyped as well. A \<open>jsval\<close> is a value after
  \<^verbatim>\<open>JSON.parse\<close>, or \<^verbatim>\<open>undefined\<close>, or a member inherited from a built-in prototype:
  \<^item> \<open>JNum\<close> carries the text that \<^verbatim>\<open>Number.prototype.toString\<close> prints for the
    number: the handlers never calculate, they only print numbers and test them for
    truthiness, and both are read off that text;
  \<^item> \<open>JObj\<close> lists the own properties of a parsed object in the order in which
    \<^verbatim>\<open>Object.keys\<close> enumerates them; for keys that are not array indices, as every
    date string, that is the order of the document;
  \<^item> \<open>JBuiltin n\<close> is the built-in member named \<open>n\<close> that a value inherits from its
    prototype chain (\<^verbatim>\<open>({})["constructor"]\<close>), an object;
  \<^item> a string is a list of characters, one for each code unit.
\<close>

datatype jsval =
    JUndefined
  | JNull
  | JBool bool
  | JNum string
  | JStr string
  | JArr "jsval list"
  | JObj "(string \<times> jsval) list"
  | JBuiltin string

text \<open>A thrown value: an \<^verbatim>\<open>Error\<close> object with its \<^verbatim>\<open>name\<close> and \<^verbatim>\<open>message\<close>.\<close>

datatype jserror = JsError (errName: string) (errMessage: string)

text \<open>
  A computation either throws (\<open>Inl\<close>) or returns (\<open>Inr\<close>); \<open>andThen\<close> sequences two
  steps, the second running only when the first has returned.
\<close>

type_synonym 'a js = "jserror + 'a"

definition andThen :: "'a js \<Rightarrow> ('a \<Rightarrow> 'b js) \<Rightarrow> 'b js" where
  "andThen m f = (case m of Inl e \<Rightarrow> Inl e | Inr x \<Rightarrow> f x)"

definition TypeError :: "string \<Rightarrow> jserror" where
  "TypeError m = JsError ''TypeError'' m"

text \<open>\<^verbatim>\<open>new Error(m)\<close>.\<close>

definition newError :: "string \<Rightarrow> jserror" where
  "newError m = JsError ''Error'' m"

text \<open>\<^verbatim>\<open>Error.prototype.toString\<close>, which \<^verbatim>\<open>new Error(e)\<close> applies to an error \<^verbatim>\<open>e\<close>.\<close>

definition errToString :: "jserror \<Rightarrow> string" where
  "errToString e =
     (if errName e = [] then errMessage e
      else if errMessage e = [] then errName e
      else errName e @ '': '' @ errMessage e)"

text \<open>\<^verbatim>\<open>!v\<close> is \<open>\<not> truthy v\<close>. The numbers that are falsy print as \<^verbatim>\<open>0\<close> and \<^verbatim>\<open>NaN\<close>.\<close>

fun truthy :: "jsval \<Rightarrow> bool" where
  "truthy JUndefined = False"
| "truthy JNull = False"
| "truthy (JBool b) = b"
| "truthy (JNum n) = (n \<noteq> ''0'' \<and> n \<noteq> ''NaN'')"
| "truthy (JStr s) = (s \<noteq> [])"
| "truthy (JArr xs) = True"
| "truthy (JObj kvs) = True"
| "truthy (JBuiltin n) = True"

definition nullish :: "jsval \<Rightarrow> bool" where
  "nullish v = (v = JUndefined \<or> v = JNull)"

text \<open>
  The conversion to a string that a template literal applies to each substitution.
  An array joins its elements with commas, printing \<^verbatim>\<open>null\<close> and \<^verbatim>\<open>undefined\<close> as
  nothing. A parsed object inherits \<^verbatim>\<open>Object.prototype.toString\<close> unless it has an own
  property \<^verbatim>\<open>toString\<close>; an own property is a parsed value, never a function, and
  \<^verbatim>\<open>valueOf\<close> (own or inherited) yields no primitive either, so the conversion throws.
\<close>

fun toStr :: "jsval \<Rightarrow> string js" and joinElems :: "jsval list \<Rightarrow> string js" where
  "toStr JUndefined = Inr ''undefined''"
| "toStr JNull = Inr ''null''"
| "toStr (JBool b) = Inr (if b then ''true'' else ''false'')"
| "toStr (JNum n) = Inr n"
| "toStr (JStr s) = Inr s"
| "toStr (JArr xs) = joinElems xs"
| "toStr (JObj kvs) =
     (case map_of kvs ''toString'' of
        None \<Rightarrow> Inr ''[object Object]''
      | Some v \<Rightarrow> Inl (TypeError ''Cannot convert object to primitive value''))"
| "toStr (JBuiltin n) = Inr (''function '' @ n @ ''() { [native code] }'')"
| "joinElems [] = Inr []"
| "joinElems [x] = (if x = JUndefined \<or> x = JNull then Inr [] else toStr x)"
| "joinElems (x # y # ys) =
     (case (if x = JUndefined \<or> x = JNull then Inr [] else toStr x) of
        Inl e \<Rightarrow> Inl e
      | Inr s \<Rightarrow>
          (case joinElems (y # ys) of
             Inl e \<Rightarrow> Inl e
           | Inr r \<Rightarrow> Inr (s @ '','' @ r)))"

text \<open>Decimal notation of an array index or a length.\<close>

fun showNat :: "nat \<Rightarrow> string" where
  "showNat n =
     (if n < 10 then [''0123456789'' ! n]
      else showNat (n div 10) @ [''0123456789'' ! (n mod 10)])"

declare showNat.simps [simp del]

text \<open>The index that a property key denotes in a sequence of \<open>n\<close> elements, if any.\<close>

definition indexOfKey :: "string \<Rightarrow> nat \<Rightarrow> nat option" where
  "indexOfKey k n = find (\<lambda>i. showNat i = k) [0..<n]"

text \<open>
  Names of the members every value inherits from \<^verbatim>\<open>Object.prototype\<close>, and of those
  that arrays, strings, numbers and booleans inherit from their own prototypes
  (ECMAScript 2024 with its Annex B).
\<close>

definition objectPrototype :: "string list" where
  "objectPrototype =
     [''constructor'', ''__defineGetter__'', ''__defineSetter__'', ''hasOwnProperty'',
      ''__lookupGetter__'', ''__lookupSetter__'', ''isPrototypeOf'',
      ''propertyIsEnumerable'', ''toString'', ''valueOf'', ''__proto__'',
      ''toLocaleString'']"

definition arrayPrototype :: "string list" where
  "arrayPrototype =
     [''at'', ''concat'', ''copyWithin'', ''fill'', ''find'', ''findIndex'', ''findLast'',
      ''findLastIndex'', ''lastIndexOf'', ''pop'', ''push'', ''reverse'', ''shift'',
      ''unshift'', ''slice'', ''sort'', ''splice'', ''includes'', ''indexOf'', ''join'',
      ''keys'', ''entries'', ''values'', ''forEach'', ''filter'', ''flat'', ''flatMap'',
      ''map'', ''every'', ''some'', ''reduce'', ''reduceRight'', ''toReversed'',
      ''toSorted'', ''toSpliced'', ''with'']"

definition stringPrototype :: "string list" where
  "stringPrototype =
     [''anchor'', ''at'', ''big'', ''blink'', ''bold'', ''charAt'', ''charCodeAt'',
      ''codePointAt'', ''concat'', ''endsWith'', ''fontcolor'', ''fontsize'', ''fixed'',
      ''includes'', ''indexOf'', ''italics'', ''lastIndexOf'', ''link'',
      ''localeCompare'', ''match'', ''matchAll'', ''normalize'', ''padEnd'', ''padStart'',
      ''repeat'', ''replace'', ''replaceAll'', ''search'', ''slice'', ''small'', ''split'',
      ''strike'', ''sub'', ''substr'', ''substring'', ''sup'', ''startsWith'', ''trim'',
      ''trimStart'', ''trimLeft'', ''trimEnd'', ''trimRight'', ''toLocaleLowerCase'',
      ''toLocaleUpperCase'', ''toLowerCase'', ''toUpperCase'', ''isWellFormed'',
      ''toWellFormed'']"

definition numberPrototype :: "string list" where
  "numberPrototype = [''toExponential'', ''toFixed'', ''toPrecision'']"

definition inherited :: "string list \<Rightarrow> string \<Rightarrow> jsval" where
  "inherited own k =
     (if k \<in> set own \<or> k \<in> set objectPrototype then JBuiltin k else JUndefined)"

definition quoted :: "string \<Rightarrow> string" where
  "quoted s = [CHR 0x27] @ s @ [CHR 0x27]"

text \<open>
  The property \<open>k\<close> of a parsed object with the own properties \<open>kvs\<close>: the own
  property, else the inherited member, else \<^verbatim>\<open>undefined\<close>.
\<close>

definition field :: "(string \<times> jsval) list \<Rightarrow> string \<Rightarrow> jsval" where
  "field kvs k = (case map_of kvs k of Some v \<Rightarrow> v | None \<Rightarrow> inherited [] k)"

text \<open>
  The error of reading a property of \<^verbatim>\<open>undefined\<close> or \<^verbatim>\<open>null\<close>; the message
  names the property when the engine can print it.
\<close>

definition cannotRead :: "string \<Rightarrow> string option \<Rightarrow> jserror" where
  "cannotRead base k =
     TypeError (''Cannot read properties of '' @ base @
                (case k of None \<Rightarrow> [] | Some n \<Rightarrow> '' (reading '' @ quoted n @ '')''))"

text \<open>
  Reading the property \<open>k\<close> of \<open>v\<close>: \<^verbatim>\<open>v.k\<close> and \<^verbatim>\<open>v["k"]\<close>. On \<^verbatim>\<open>undefined\<close> and
  \<^verbatim>\<open>null\<close> it throws; a primitive is read through its wrapper. A built-in member is
  only ever read at the five numbered field names of the OHLCV handler, which it does
  not have.
\<close>

fun getProp :: "jsval \<Rightarrow> string \<Rightarrow> jsval js" where
  "getProp JUndefined k = Inl (cannotRead ''undefined'' (Some k))"
| "getProp JNull k = Inl (cannotRead ''null'' (Some k))"
| "getProp (JObj kvs) k = Inr (field kvs k)"
| "getProp (JArr xs) k =
     Inr (case indexOfKey k (length xs) of
            Some i \<Rightarrow> xs ! i
          | None \<Rightarrow>
              if k = ''length'' then JNum (showNat (length xs))
              else inherited arrayPrototype k)"
| "getProp (JStr s) k =
     Inr (case indexOfKey k (length s) of
            Some i \<Rightarrow> JStr [s ! i]
          | None \<Rightarrow>
              if k = ''length'' then JNum (showNat (length s))
              else inherited stringPrototype k)"
| "getProp (JNum n) k = Inr (inherited numberPrototype k)"
| "getProp (JBool b) k = Inr (inherited [] k)"
| "getProp (JBuiltin n) k = Inr JUndefined"

text \<open>
  The name under which the message of a failed read mentions a computed key. The engine
  prints it without running any code of the key: a primitive as it converts to a string,
  a function by its source text, an object as \<^verbatim>\<open>#<Object>\<close> when its \<^verbatim>\<open>toString\<close> and
  its \<^verbatim>\<open>constructor\<close> are the inherited ones, and an array or any other object not
  at all.
\<close>

fun printedKey :: "jsval \<Rightarrow> string option" where
  "printedKey JUndefined = Some ''undefined''"
| "printedKey JNull = Some ''null''"
| "printedKey (JBool b) = Some (if b then ''true'' else ''false'')"
| "printedKey (JNum n) = Some n"
| "printedKey (JStr s) = Some s"
| "printedKey (JArr xs) = None"
| "printedKey (JObj kvs) =
     (if map_of kvs ''toString'' = None \<and> map_of kvs ''constructor'' = None
      then Some ''#<Object>'' else None)"
| "printedKey (JBuiltin n) = Some (''function '' @ n @ ''() { [native code] }'')"

text \<open>
  \<^verbatim>\<open>v[key]\<close> with a computed key: on \<^verbatim>\<open>undefined\<close> and \<^verbatim>\<open>null\<close> it throws before
  the key is converted; otherwise the key is converted to a string, which may throw,
  and the property of that name is read.
\<close>

definition getElem :: "jsval \<Rightarrow> jsval \<Rightarrow> jsval js" where
  "getElem v key =
     (if v = JUndefined then Inl (cannotRead ''undefined'' (printedKey key))
      else if v = JNull then Inl (cannotRead ''null'' (printedKey key))
      else andThen (toStr key) (getProp v))"

text \<open>\<^verbatim>\<open>Object.keys(v)\<close>: the own enumerable property names, in order.\<close>

fun objectKeys :: "jsval \<Rightarrow> string list js" where
  "objectKeys JUndefined = Inl (TypeError ''Cannot convert undefined or null to object'')"
| "objectKeys JNull = Inl (TypeError ''Cannot convert undefined or null to object'')"
| "objectKeys (JObj kvs) = Inr (map fst kvs)"
| "objectKeys (JArr xs) = Inr (map showNat [0..<length xs])"
| "objectKeys (JStr s) = Inr (map showNat [0..<length s])"
| "objectKeys (JNum n) = Inr []"
| "objectKeys (JBool b) = Inr []"
| "objectKeys (JBuiltin n) = Inr []"

text \<open>\<^verbatim>\<open>ks[0]\<close> on an array of strings: \<^verbatim>\<open>undefined\<close> when it is empty.\<close>

definition first :: "string list \<Rightarrow> jsval" where
  "first ks = (case ks of [] \<Rightarrow> JUndefined | k # rest \<Rightarrow> JStr k)"

text \<open>
  \<^verbatim>\<open>v.map(f).join(sep)\<close> for a callback \<open>f\<close> that returns strings; \<open>what\<close> is the
  source text of \<open>v\<close>, which the engine quotes when \<^verbatim>\<open>v.map\<close> is not callable. Only arrays
  have a callable \<^verbatim>\<open>map\<close>: a parsed object has none unless as an own property, which is
  no function.
\<close>

fun mapJs :: "('a \<Rightarrow> 'b js) \<Rightarrow> 'a list \<Rightarrow> 'b list js" where
  "mapJs f [] = Inr []"
| "mapJs f (x # xs) =
     (case f x of
        Inl e \<Rightarrow> Inl e
      | Inr y \<Rightarrow> (case mapJs f xs of Inl e \<Rightarrow> Inl e | Inr ys \<Rightarrow> Inr (y # ys)))"

fun joinWith :: "string \<Rightarrow> string list \<Rightarrow> string" where
  "joinWith sep [] = []"
| "joinWith sep [x] = x"
| "joinWith sep (x # y # ys) = x @ sep @ joinWith sep (y # ys)"

definition mapJoin :: "string \<Rightarrow> jsval \<Rightarrow> (jsval \<Rightarrow> string js) \<Rightarrow> string \<Rightarrow> string js" where
  "mapJoin what v f sep =
     (case v of
        JArr xs \<Rightarrow> andThen (mapJs f xs) (\<lambda>lines. Inr (joinWith sep lines))
      | JUndefined \<Rightarrow> andThen (getProp v ''map'') (\<lambda>m. Inr [])
      | JNull \<Rightarrow> andThen (getProp v ''map'') (\<lambda>m. Inr [])
      | _ \<Rightarrow> Inl (TypeError (what @ ''.map is not a function'')))"

section \<open>Requests, upstream outcomes and tool results\<close>

text \<open>
  \<^verbatim>\<open>req.params\<close>: the tool name, a string, and the argument bag, which a request may
  omit (\<open>JUndefined\<close>).
\<close>

record request =
  name :: string
  arguments :: jsval

text \<open>
  The outcome of \<^verbatim>\<open>await axios.get(url)\<close>: the promise resolves with a response whose
  \<^verbatim>\<open>data\<close> is the parsed body (the raw text, a \<open>JStr\<close>, when the body is not JSON), or
  it rejects with an error. The upstream service is a function of the URL requested.
\<close>

datatype outcome = Resolved jsval | Rejected jserror

type_synonym upstream = "string \<Rightarrow> outcome"

definition axiosGet :: "upstream \<Rightarrow> string \<Rightarrow> jsval js" where
  "axiosGet up url = (case up url of Resolved d \<Rightarrow> Inr d | Rejected e \<Rightarrow> Inl e)"

text \<open>\<^verbatim>\<open>catch (e) { logger.error(e); throw new Error(e); }\<close> around a step.\<close>

definition rethrown :: "'a js \<Rightarrow> 'a js" where
  "rethrown m = (case m of Inl e \<Rightarrow> Inl (newError (errToString e)) | Inr x \<Rightarrow> Inr x)"

record content_item =
  ctype :: string
  ctext :: string

text \<open>The object a handler returns; \<open>isError\<close> is \<open>None\<close> when the field is not set.\<close>

record ToolResult =
  content :: "content_item list"
  isError :: "bool option"

definition textResult :: "string \<Rightarrow> ToolResult" where
  "textResult t = \<lparr>content = [\<lparr>ctype = ''text'', ctext = t\<rparr>], isError = None\<rparr>"

definition errorResult :: "string \<Rightarrow> ToolResult" where
  "errorResult t = \<lparr>content = [\<lparr>ctype = ''text'', ctext = t\<rparr>], isError = Some True\<rparr>"

text \<open>
  \<^verbatim>\<open>const { f, ... } = req.params.arguments\<close>, one field: destructuring throws when
  the bag is \<^verbatim>\<open>undefined\<close> or \<^verbatim>\<open>null\<close>.
\<close>

definition destructure :: "jsval \<Rightarrow> string \<Rightarrow> jsval js" where
  "destructure bag f =
     (if nullish bag
      then Inl (TypeError (''Cannot destructure property '' @ quoted f @
                 '' of '' @ quoted ''req.params.arguments'' @ '' as it is '' @
                 (if bag = JNull then ''null'' else ''undefined'') @ ''.''))
      else getProp bag f)"

section \<open>The handlers\<close>

subsection \<open>\<^verbatim>\<open>handleGetTickerOhlcv\<close>\<close>

definition ohlcvUrl :: "string \<Rightarrow> string \<Rightarrow> string" where
  "ohlcvUrl ticker apiKey =
     ''https://www.alphavantage.co/query?function=TIME_SERIES_DAILY&symbol='' @ ticker @
     ''&outputsize=full&apikey='' @ apiKey"

text \<open>
  Lines 182 to 185: \<^verbatim>\<open>actualDate\<close> is \<^verbatim>\<open>date\<close>, or the first key of the time series
  when \<^verbatim>\<open>date === ""\<close>.
\<close>

definition resolveDate :: "jsval \<Rightarrow> jsval \<Rightarrow> jsval js" where
  "resolveDate date data =
     (if date = JStr []
      then andThen (getProp data ''Time Series (Daily)'') (\<lambda>series.
           andThen (objectKeys series) (\<lambda>ks. Inr (first ks)))
      else Inr date)"

text \<open>Lines 207 to 226: the \<^verbatim>\<open>switch\<close> on \<^verbatim>\<open>infoType\<close>.\<close>

definition selectPrice ::
  "jsval \<Rightarrow> jsval \<Rightarrow> jsval \<Rightarrow> jsval \<Rightarrow> jsval \<Rightarrow> jsval \<Rightarrow> jsval js" where
  "selectPrice infoType openPrice highPrice lowPrice closePrice volume =
     (if infoType = JStr ''open'' then Inr openPrice
      else if infoType = JStr ''high'' then Inr highPrice
      else if infoType = JStr ''low'' then Inr lowPrice
      else if infoType = JStr ''close'' then Inr closePrice
      else if infoType = JStr ''volume'' then Inr volume
      else andThen (toStr infoType) (\<lambda>i. Inl (newError (''Invalid infoType: '' @ i))))"

text \<open>The body of the outer \<^verbatim>\<open>try\<close>, lines 172 to 235.\<close>

definition ohlcvTry ::
  "jsval \<Rightarrow> jsval \<Rightarrow> jsval \<Rightarrow> string \<Rightarrow> upstream \<Rightarrow> ToolResult js" where
  "ohlcvTry ticker infoType date apiKey up =
     andThen (rethrown (andThen (toStr ticker) (\<lambda>t. axiosGet up (ohlcvUrl t apiKey))))
       (\<lambda>data.
     andThen (resolveDate date data) (\<lambda>actualDate.
     andThen (getProp data ''Time Series (Daily)'') (\<lambda>series.
     andThen (getElem series actualDate) (\<lambda>ohlcv.
       if \<not> truthy ohlcv then
         andThen (toStr ticker) (\<lambda>t.
         andThen (toStr actualDate) (\<lambda>d.
           Inr (errorResult (''No data found for '' @ t @ '' on '' @ d @ ''.''))))
       else
         andThen (getProp ohlcv ''1. open'') (\<lambda>openPrice.
         andThen (getProp ohlcv ''2. high'') (\<lambda>highPrice.
         andThen (getProp ohlcv ''3. low'') (\<lambda>lowPrice.
         andThen (getProp ohlcv ''4. close'') (\<lambda>closePrice.
         andThen (getProp ohlcv ''5. volume'') (\<lambda>volume.
         andThen (selectPrice infoType openPrice highPrice lowPrice closePrice volume)
           (\<lambda>price.
         andThen (toStr infoType) (\<lambda>i.
         andThen (toStr ticker) (\<lambda>t.
         andThen (toStr actualDate) (\<lambda>d.
         andThen (toStr price) (\<lambda>p.
           Inr (textResult
                  (''The '' @ i @ '' for '' @ t @ '' on '' @ d @ '' is '' @ p))))))))))))))))"

text \<open>The outer \<^verbatim>\<open>catch\<close>, lines 236 to 247; its template literal may throw as well.\<close>

definition ohlcvCatch :: "jsval \<Rightarrow> jsval \<Rightarrow> jserror \<Rightarrow> ToolResult js" where
  "ohlcvCatch ticker infoType error =
     andThen (toStr infoType) (\<lambda>i.
     andThen (toStr ticker) (\<lambda>t.
       Inr (errorResult (''Failed to get the '' @ i @ '' price for '' @ t @
                         ''. Error: '' @ errMessage error))))"

text \<open>
  The handler: the destructuring of line 169 stands before the \<^verbatim>\<open>try\<close>, so what it
  throws leaves the handler, as does what the \<^verbatim>\<open>catch\<close> block throws.
\<close>

definition handleGetTickerOhlcv :: "request \<Rightarrow> string \<Rightarrow> upstream \<Rightarrow> ToolResult js" where
  "handleGetTickerOhlcv req apiKey up =
     andThen (destructure (arguments req) ''ticker'') (\<lambda>ticker.
     andThen (destructure (arguments req) ''infoType'') (\<lambda>infoType.
     andThen (destructure (arguments req) ''date'') (\<lambda>date.
       case ohlcvTry ticker infoType date apiKey up of
         Inr result \<Rightarrow> Inr result
       | Inl error \<Rightarrow> ohlcvCatch ticker infoType error)))"

subsection \<open>\<^verbatim>\<open>handleGetTickerDividend\<close>\<close>

definition dividendUrl :: "string \<Rightarrow> string \<Rightarrow> string" where
  "dividendUrl ticker apiKey =
     ''https://www.alphavantage.co/query?function=DIVIDENDS&symbol='' @ ticker @
     ''&apikey='' @ apiKey"

text \<open>The callback of line 277.\<close>

definition dividendLine :: "jsval \<Rightarrow> string js" where
  "dividendLine item =
     andThen (getProp item ''ex_dividend_date'') (\<lambda>exDate.
     andThen (toStr exDate) (\<lambda>d.
     andThen (getProp item ''amount'') (\<lambda>amount.
     andThen (toStr amount) (\<lambda>a.
       Inr (''Ex-Dividend Date: '' @ d @ '', Amount: '' @ a)))))"

definition newline :: string where
  "newline = [CHR 0x0A]"

definition dividendTry :: "jsval \<Rightarrow> string \<Rightarrow> upstream \<Rightarrow> ToolResult js" where
  "dividendTry ticker apiKey up =
     andThen (rethrown (andThen (toStr ticker) (\<lambda>t. axiosGet up (dividendUrl t apiKey))))
       (\<lambda>data.
     andThen (getProp data ''data'') (\<lambda>dividendHistory.
       if \<not> truthy dividendHistory then
         andThen (toStr ticker) (\<lambda>t.
           Inr (errorResult (''No dividend data found for '' @ t @ ''.'')))
       else
         andThen (mapJoin ''dividendHistory'' dividendHistory dividendLine newline)
           (\<lambda>dividends.
         andThen (toStr ticker) (\<lambda>t.
           Inr (textResult (''Dividend history for '' @ t @ '':'' @ newline @ dividends))))))"

definition dividendCatch :: "jsval \<Rightarrow> jserror \<Rightarrow> ToolResult js" where
  "dividendCatch ticker error =
     andThen (toStr ticker) (\<lambda>t.
       Inr (errorResult (''Failed to get the dividend data for '' @ t @
                         ''. Error: '' @ errMessage error)))"

definition handleGetTickerDividend :: "request \<Rightarrow> string \<Rightarrow> upstream \<Rightarrow> ToolResult js" where
  "handleGetTickerDividend req apiKey up =
     andThen (destructure (arguments req) ''ticker'') (\<lambda>ticker.
       case dividendTry ticker apiKey up of
         Inr result \<Rightarrow> Inr result
       | Inl error \<Rightarrow> dividendCatch ticker error)"

subsection \<open>\<^verbatim>\<open>handleGetEtfHoldings\<close>\<close>

definition holdingsUrl :: "string \<Rightarrow> string \<Rightarrow> string" where
  "holdingsUrl ticker apiKey =
     ''https://www.alphavantage.co/query?function=ETF_PROFILE&symbol='' @ ticker @
     ''&apikey='' @ apiKey"

text \<open>The callback of line 331.\<close>

definition holdingLine :: "jsval \<Rightarrow> string js" where
  "holdingLine item =
     andThen (getProp item ''description'') (\<lambda>description.
     andThen (toStr description) (\<lambda>d.
     andThen (getProp item ''symbol'') (\<lambda>symbol.
     andThen (toStr symbol) (\<lambda>s.
     andThen (getProp item ''weight'') (\<lambda>weight.
     andThen (toStr weight) (\<lambda>w.
       Inr (''Holding: '' @ d @ '' ('' @ s @ ''), Weight: '' @ w)))))))"

definition holdingsTry :: "jsval \<Rightarrow> string \<Rightarrow> upstream \<Rightarrow> ToolResult js" where
  "holdingsTry ticker apiKey up =
     andThen (rethrown (andThen (toStr ticker) (\<lambda>t. axiosGet up (holdingsUrl t apiKey))))
       (\<lambda>data.
     andThen (getProp data ''holdings'') (\<lambda>holdingsData.
       if \<not> truthy holdingsData then
         andThen (toStr ticker) (\<lambda>t.
           Inr (errorResult (''No holdings data found for '' @ t @ ''.'')))
       else
         andThen (mapJoin ''holdingsData'' holdingsData holdingLine newline) (\<lambda>holdings.
         andThen (toStr ticker) (\<lambda>t.
           Inr (textResult (''Holdings for '' @ t @ '':'' @ newline @ holdings))))))"

definition holdingsCatch :: "jsval \<Rightarrow> jserror \<Rightarrow> ToolResult js" where
  "holdingsCatch ticker error =
     andThen (toStr ticker) (\<lambda>t.
       Inr (errorResult (''Failed to get the holdings data for '' @ t @
                         ''. Error: '' @ errMessage error)))"

definition handleGetEtfHoldings :: "request \<Rightarrow> string \<Rightarrow> upstream \<Rightarrow> ToolResult js" where
  "handleGetEtfHoldings req apiKey up =
     andThen (destructure (arguments req) ''ticker'') (\<lambda>ticker.
       case holdingsTry ticker apiKey up of
         Inr result \<Rightarrow> Inr result
       | Inl error \<Rightarrow> holdingsCatch ticker error)"

subsection \<open>\<^verbatim>\<open>handleGetExchangeRate\<close>\<close>

definition exchangeUrl :: "string \<Rightarrow> string \<Rightarrow> string \<Rightarrow> string" where
  "exchangeUrl fromCurrency toCurrency apiKey =
     ''https://www.alphavantage.co/query?function=CURRENCY_EXCHANGE_RATE&from_currency='' @
     fromCurrency @ ''&to_currency='' @ toCurrency @ ''&apikey='' @ apiKey"

text \<open>This handler has no inner \<^verbatim>\<open>catch\<close>: a rejection reaches the outer one as it is.\<close>

definition exchangeTry :: "jsval \<Rightarrow> jsval \<Rightarrow> string \<Rightarrow> upstream \<Rightarrow> ToolResult js" where
  "exchangeTry fromCurrency toCurrency apiKey up =
     andThen (toStr fromCurrency) (\<lambda>f.
     andThen (toStr toCurrency) (\<lambda>t.
     andThen (axiosGet up (exchangeUrl f t apiKey)) (\<lambda>data.
     andThen (getProp data ''Realtime Currency Exchange Rate'') (\<lambda>priceData.
       if \<not> truthy priceData then
         Inr (errorResult
                (''Could not retrieve exchange rate for '' @ f @ '' to '' @ t @ ''.''))
       else
         andThen (getProp priceData ''5. Exchange Rate'') (\<lambda>exchangeRate.
         andThen (toStr exchangeRate) (\<lambda>r.
           Inr (textResult
                  (''The exchange rate from '' @ f @ '' to '' @ t @ '' is '' @ r))))))))"

definition exchangeCatch :: "jsval \<Rightarrow> jsval \<Rightarrow> jserror \<Rightarrow> ToolResult js" where
  "exchangeCatch fromCurrency toCurrency error =
     andThen (toStr fromCurrency) (\<lambda>f.
     andThen (toStr toCurrency) (\<lambda>t.
       Inr (errorResult (''Failed to get the exchange rate for '' @ f @ '' to '' @ t @
                         ''. Error: '' @ errMessage error))))"

definition handleGetExchangeRate :: "request \<Rightarrow> string \<Rightarrow> upstream \<Rightarrow> ToolResult js" where
  "handleGetExchangeRate req apiKey up =
     andThen (destructure (arguments req) ''fromCurrency'') (\<lambda>fromCurrency.
     andThen (destructure (arguments req) ''toCurrency'') (\<lambda>toCurrency.
       case exchangeTry fromCurrency toCurrency apiKey up of
         Inr result \<Rightarrow> Inr result
       | Inl error \<Rightarrow> exchangeCatch fromCurrency toCurrency error))"

section \<open>The dispatcher\<close>

text \<open>
  \<^verbatim>\<open>callToolHandler.handler\<close>, lines 404 to 431. The environment variable
  \<^verbatim>\<open>ALPHAVANTAGE_API_KEY\<close> is \<open>None\<close> when it is not set; \<^verbatim>\<open>!apiKey\<close> also holds of the
  empty string.
\<close>

definition callToolHandler :: "string option \<Rightarrow> request \<Rightarrow> upstream \<Rightarrow> ToolResult js" where
  "callToolHandler env req up =
     (case env of
        None \<Rightarrow> Inl (newError ''ALPHAVANTAGE_API_KEY is not set'')
      | Some apiKey \<Rightarrow>
          if apiKey = [] then Inl (newError ''ALPHAVANTAGE_API_KEY is not set'')
          else if name req = ''get_ticker_ohlcv'' then handleGetTickerOhlcv req apiKey up
          else if name req = ''get_ticker_dividend'' then handleGetTickerDividend req apiKey up
          else if name req = ''get_etf_holdings'' then handleGetEtfHoldings req apiKey up
          else if name req = ''get_exchange_rate'' then handleGetExchangeRate req apiKey up
          else Inr (errorResult (''Tool '' @ name req @ '' not found.'')))"

section \<open>Inputs of the declared shapes\<close>

text \<open>
  The requests whose argument bag holds exactly the strings that the type annotation of
  a handler names (lines 169, 251, 304 and 358).
\<close>

definition ohlcvRequest :: "string \<Rightarrow> string \<Rightarrow> string \<Rightarrow> request" where
  "ohlcvRequest ticker infoType date =
     \<lparr>name = ''get_ticker_ohlcv'',
      arguments = JObj [(''ticker'', JStr ticker), (''infoType'', JStr infoType),
                        (''date'', JStr date)]\<rparr>"



text \<open>A value that a template literal can print.\<close>

definition printable :: "jsval \<Rightarrow> bool" where
  "printable v = (case toStr v of Inl e \<Rightarrow> False | Inr s \<Rightarrow> True)"



text \<open>Sample responses and a sample request, for the concrete instances below.\<close>

definition sampleSeries :: jsval where
  "sampleSeries =
     JObj [(''Meta Data'', JObj [(''2. Symbol'', JStr ''AAPL'')]),
           (''Time Series (Daily)'',
            JObj [(''2024-01-02'',
                   JObj [(''1. open'', JStr ''187.15''), (''2. high'', JStr ''188.44''),
                         (''3. low'', JStr ''183.89''), (''4. close'', JStr ''185.64''),
                         (''5. volume'', JStr ''82488700'')]),
                  (''2023-12-29'',
                   JObj [(''1. open'', JStr ''193.90''), (''2. high'', JStr ''194.40''),
                         (''3. low'', JStr ''191.73''), (''4. close'', JStr ''192.53''),
                         (''5. volume'', JStr ''42672100'')])])]"


definition sampleBag :: "(string \<times> jsval) list" where
  "sampleBag =
     [(''ticker'', JStr ''AAPL''), (''infoType'', JStr ''close''),
      (''date'', JStr ''2024-01-02''), (''fromCurrency'', JStr ''USD''),
      (''toCurrency'', JStr ''EUR'')]"

definition networkError :: jserror where
  "networkError = JsError ''AxiosError'' ''Network Error''"

section \<open>Basic facts about the runtime operations\<close>

lemma andThen_Inl [simp]: "andThen (Inl e) f = Inl e"
  by (simp add: andThen_def)

lemma andThen_Inr [simp]: "andThen (Inr x) f = f x"
  by (simp add: andThen_def)


lemma rethrown_simps [simp]:
  "rethrown (Inr x) = Inr x"
  "rethrown (Inl e) = Inl (newError (errToString e))"
  by (simp_all add: rethrown_def)

lemma fetch_resolved: "up url = Resolved data \<Longrightarrow> axiosGet up url = Inr data"
  by (simp add: axiosGet_def)

lemma field_own: "map_of kvs k = Some v \<Longrightarrow> field kvs k = v"
  by (simp add: field_def)



lemma destructure_object [simp]: "destructure (JObj bag) f = Inr (field bag f)"
  by (simp add: destructure_def nullish_def)

lemma getElem_object [simp]: "getElem (JObj kvs) (JStr k) = Inr (field kvs k)"
  by (simp add: getElem_def nullish_def)


lemma printable_toStr: "printable v \<Longrightarrow> \<exists>s. toStr v = Inr s"
  by (cases "toStr v") (simp_all add: printable_def)

lemma printable_JStr [simp]: "printable (JStr s)"
  by (simp add: printable_def)




section \<open>The handlers on arguments of the declared types\<close>

text \<open>
  With strings for arguments neither the destructuring nor the \<^verbatim>\<open>catch\<close> block can
  throw: the handler returns what its \<^verbatim>\<open>try\<close> block returns, or the error result that
  the \<^verbatim>\<open>catch\<close> block builds.
\<close>

lemma ohlcv_typed:
  "handleGetTickerOhlcv (ohlcvRequest t i d) apiKey up =
     (case ohlcvTry (JStr t) (JStr i) (JStr d) apiKey up of
        Inr result \<Rightarrow> Inr result
      | Inl error \<Rightarrow>
          Inr (errorResult (''Failed to get the '' @ i @ '' price for '' @ t @
                            ''. Error: '' @ errMessage error)))"
  by (simp add: handleGetTickerOhlcv_def ohlcvRequest_def ohlcvCatch_def field_def
        split: sum.splits)



lemma returns_or_caught:
  "\<exists>r. (case m of Inr result \<Rightarrow> Inr result | Inl error \<Rightarrow> Inr (errorResult (t error))) = Inr r
        \<and> (\<forall>e. m = Inl e \<longrightarrow> isError r = Some True)"
  by (cases m) (simp_all add: errorResult_def)

lemma resolveDate_given: "date \<noteq> [] \<Longrightarrow> resolveDate (JStr date) data = Inr (JStr date)"
  by (simp add: resolveDate_def)

lemma resolveDate_sentinel:
  "map_of body ''Time Series (Daily)'' = Some (JObj series) \<Longrightarrow>
   resolveDate (JStr []) (JObj body) = Inr (first (map fst series))"
  by (simp add: resolveDate_def field_own)







text \<open>Without an argument bag every handler throws at its first line.\<close>

lemma absent_arguments_throw:
  assumes "arguments req = JUndefined"
  shows "\<exists>e. handleGetTickerOhlcv req apiKey up = Inl e"
    and "\<exists>e. handleGetTickerDividend req apiKey up = Inl e"
    and "\<exists>e. handleGetEtfHoldings req apiKey up = Inl e"
    and "\<exists>e. handleGetExchangeRate req apiKey up = Inl e"
  by (simp_all add: assms handleGetTickerOhlcv_def handleGetTickerDividend_def
        handleGetEtfHoldings_def handleGetExchangeRate_def destructure_def nullish_def)

section \<open>The claims\<close>

subsection \<open>C1: a handler returns a tool result and throws nothing\<close>

text \<open>
  C1, as amended. A tool invocation reaches a handler with an argument bag, and the
  upstream call has any outcome: it rejects, or it resolves with any value at all (a
  parsed document of any shape, the raw text of a body that is not JSON). If the
  arguments that the handler prints in its failure message can be printed (\<open>ticker\<close>
  and \<open>infoType\<close> for OHLCV, \<open>ticker\<close> for dividends and holdings, \<open>fromCurrency\<close> and
  \<open>toCurrency\<close> for the exchange rate), as all strings, numbers, booleans and absent
  arguments can, then the handler returns exactly one tool result and throws nothing, and
  whenever its \<^verbatim>\<open>try\<close> block has thrown, that result has \<open>isError = true\<close>.
  The claim says this of any argument bag; it fails where the bag is absent and where
  such an argument is an object with a property named \<open>toString\<close>.
\<close>

theorem handlers_return_results:
  assumes bag: "arguments req = JObj bag"
  shows "(printable (field bag ''ticker'') \<and> printable (field bag ''infoType'') \<longrightarrow>
            (\<exists>r. handleGetTickerOhlcv req apiKey up = Inr r \<and>
                 (\<forall>e. ohlcvTry (field bag ''ticker'') (field bag ''infoType'')
                        (field bag ''date'') apiKey up = Inl e \<longrightarrow> isError r = Some True)))
       \<and> (printable (field bag ''ticker'') \<longrightarrow>
            (\<exists>r. handleGetTickerDividend req apiKey up = Inr r \<and>
                 (\<forall>e. dividendTry (field bag ''ticker'') apiKey up = Inl e \<longrightarrow>
                        isError r = Some True)))
       \<and> (printable (field bag ''ticker'') \<longrightarrow>
            (\<exists>r. handleGetEtfHoldings req apiKey up = Inr r \<and>
                 (\<forall>e. holdingsTry (field bag ''ticker'') apiKey up = Inl e \<longrightarrow>
                        isError r = Some True)))
       \<and> (printable (field bag ''fromCurrency'') \<and> printable (field bag ''toCurrency'') \<longrightarrow>
            (\<exists>r. handleGetExchangeRate req apiKey up = Inr r \<and>
                 (\<forall>e. exchangeTry (field bag ''fromCurrency'') (field bag ''toCurrency'')
                        apiKey up = Inl e \<longrightarrow> isError r = Some True)))"
proof (intro conjI impI)
  assume "printable (field bag ''ticker'') \<and> printable (field bag ''infoType'')"
  then obtain t i where "toStr (field bag ''ticker'') = Inr t"
    "toStr (field bag ''infoType'') = Inr i"
    by (blast dest: printable_toStr)
  then have "handleGetTickerOhlcv req apiKey up =
      (case ohlcvTry (field bag ''ticker'') (field bag ''infoType'') (field bag ''date'')
              apiKey up of
         Inr result \<Rightarrow> Inr result
       | Inl error \<Rightarrow>
           Inr (errorResult (''Failed to get the '' @ i @ '' price for '' @ t @
                             ''. Error: '' @ errMessage error)))"
    by (simp add: handleGetTickerOhlcv_def bag ohlcvCatch_def split: sum.splits)
  then show "\<exists>r. handleGetTickerOhlcv req apiKey up = Inr r \<and>
       (\<forall>e. ohlcvTry (field bag ''ticker'') (field bag ''infoType'')
              (field bag ''date'') apiKey up = Inl e \<longrightarrow> isError r = Some True)"
    by (simp only: returns_or_caught)
next
  assume "printable (field bag ''ticker'')"
  then obtain t where "toStr (field bag ''ticker'') = Inr t"
    by (blast dest: printable_toStr)
  then have "handleGetTickerDividend req apiKey up =
      (case dividendTry (field bag ''ticker'') apiKey up of
         Inr result \<Rightarrow> Inr result
       | Inl error \<Rightarrow>
           Inr (errorResult (''Failed to get the dividend data for '' @ t @
                             ''. Error: '' @ errMessage error)))"
    by (simp add: handleGetTickerDividend_def bag dividendCatch_def split: sum.splits)
  then show "\<exists>r. handleGetTickerDividend req apiKey up = Inr r \<and>
       (\<forall>e. dividendTry (field bag ''ticker'') apiKey up = Inl e \<longrightarrow> isError r = Some True)"
    by (simp only: returns_or_caught)
next
  assume "printable (field bag ''ticker'')"
  then obtain t where "toStr (field bag ''ticker'') = Inr t"
    by (blast dest: printable_toStr)
  then have "handleGetEtfHoldings req apiKey up =
      (case holdingsTry (field bag ''ticker'') apiKey up of
         Inr result \<Rightarrow> Inr result
       | Inl error \<Rightarrow>
           Inr (errorResult (''Failed to get the holdings data for '' @ t @
                             ''. Error: '' @ errMessage error)))"
    by (simp add: handleGetEtfHoldings_def bag holdingsCatch_def split: sum.splits)
  then show "\<exists>r. handleGetEtfHoldings req apiKey up = Inr r \<and>
       (\<forall>e. holdingsTry (field bag ''ticker'') apiKey up = Inl e \<longrightarrow> isError r = Some True)"
    by (simp only: returns_or_caught)
next
  assume "printable (field bag ''fromCurrency'') \<and> printable (field bag ''toCurrency'')"
  then obtain f t where "toStr (field bag ''fromCurrency'') = Inr f"
    "toStr (field bag ''toCurrency'') = Inr t"
    by (blast dest: printable_toStr)
  then have "handleGetExchangeRate req apiKey up =
      (case exchangeTry (field bag ''fromCurrency'') (field bag ''toCurrency'') apiKey up of
         Inr result \<Rightarrow> Inr result
       | Inl error \<Rightarrow>
           Inr (errorResult (''Failed to get the exchange rate for '' @ f @ '' to '' @ t @
                             ''. Error: '' @ errMessage error)))"
    by (simp add: handleGetExchangeRate_def bag exchangeCatch_def split: sum.splits)
  then show "\<exists>r. handleGetExchangeRate req apiKey up = Inr r \<and>
       (\<forall>e. exchangeTry (field bag ''fromCurrency'') (field bag ''toCurrency'')
              apiKey up = Inl e \<longrightarrow> isError r = Some True)"
    by (simp only: returns_or_caught)
qed

text \<open>
  An instance: the sample bag, whose arguments are strings, and an upstream call that
  rejects with a network error, so that each \<^verbatim>\<open>try\<close> block throws. Each handler returns
  an error result.
\<close>

theorem handlers_return_results_witness:
  "arguments \<lparr>name = ''get_ticker_ohlcv'', arguments = JObj sampleBag\<rparr> = JObj sampleBag
   \<and> printable (field sampleBag ''ticker'') \<and> printable (field sampleBag ''infoType'')
   \<and> printable (field sampleBag ''fromCurrency'') \<and> printable (field sampleBag ''toCurrency'')
   \<and> ohlcvTry (field sampleBag ''ticker'') (field sampleBag ''infoType'')
        (field sampleBag ''date'') ''demo'' (\<lambda>url. Rejected networkError) =
      Inl (newError ''AxiosError: Network Error'')
   \<and> dividendTry (field sampleBag ''ticker'') ''demo'' (\<lambda>url. Rejected networkError) =
      Inl (newError ''AxiosError: Network Error'')
   \<and> holdingsTry (field sampleBag ''ticker'') ''demo'' (\<lambda>url. Rejected networkError) =
      Inl (newError ''AxiosError: Network Error'')
   \<and> exchangeTry (field sampleBag ''fromCurrency'') (field sampleBag ''toCurrency'') ''demo''
        (\<lambda>url. Rejected networkError) = Inl networkError
   \<and> (\<exists>r. handleGetTickerOhlcv \<lparr>name = ''get_ticker_ohlcv'', arguments = JObj sampleBag\<rparr>
             ''demo'' (\<lambda>url. Rejected networkError) = Inr r \<and> isError r = Some True)
   \<and> (\<exists>r. handleGetTickerDividend \<lparr>name = ''get_ticker_ohlcv'', arguments = JObj sampleBag\<rparr>
             ''demo'' (\<lambda>url. Rejected networkError) = Inr r \<and> isError r = Some True)
   \<and> (\<exists>r. handleGetEtfHoldings \<lparr>name = ''get_ticker_ohlcv'', arguments = JObj sampleBag\<rparr>
             ''demo'' (\<lambda>url. Rejected networkError) = Inr r \<and> isError r = Some True)
   \<and> (\<exists>r. handleGetExchangeRate \<lparr>name = ''get_ticker_ohlcv'', arguments = JObj sampleBag\<rparr>
             ''demo'' (\<lambda>url. Rejected networkError) = Inr r \<and> isError r = Some True)"
proof -
  let ?req = "\<lparr>name = ''get_ticker_ohlcv'', arguments = JObj sampleBag\<rparr>"
  let ?up = "\<lambda>url :: string. Rejected networkError"
  have bag: "arguments ?req = JObj sampleBag"
    by simp
  have fields: "field sampleBag ''ticker'' = JStr ''AAPL''"
    "field sampleBag ''infoType'' = JStr ''close''"
    "field sampleBag ''date'' = JStr ''2024-01-02''"
    "field sampleBag ''fromCurrency'' = JStr ''USD''"
    "field sampleBag ''toCurrency'' = JStr ''EUR''"
    by (simp_all add: field_def sampleBag_def)
  have thrown: "ohlcvTry (JStr ''AAPL'') (JStr ''close'') (JStr ''2024-01-02'') ''demo'' ?up =
      Inl (newError ''AxiosError: Network Error'')"
    "dividendTry (JStr ''AAPL'') ''demo'' ?up = Inl (newError ''AxiosError: Network Error'')"
    "holdingsTry (JStr ''AAPL'') ''demo'' ?up = Inl (newError ''AxiosError: Network Error'')"
    "exchangeTry (JStr ''USD'') (JStr ''EUR'') ''demo'' ?up = Inl networkError"
    by (simp_all add: ohlcvTry_def dividendTry_def holdingsTry_def exchangeTry_def
          axiosGet_def errToString_def networkError_def)
  from handlers_return_results [of ?req sampleBag "''demo''" ?up, OF bag]
  show ?thesis
    unfolding fields thrown by simp
qed

text \<open>
  C1 as stated fails. In the first invocation the bag holds, for \<open>ticker\<close>, an object
  with a property \<open>toString\<close>: the template literal of the URL throws, the inner and
  the outer \<^verbatim>\<open>catch\<close> take that over, and the template literal of the outer \<^verbatim>\<open>catch\<close>
  prints \<open>ticker\<close> again and throws out of the handler. In the second the request has no
  argument bag, and the destructuring of line 251, which stands before the \<^verbatim>\<open>try\<close>,
  throws.
\<close>

theorem handler_throws_counterexample:
  "handleGetTickerOhlcv
     \<lparr>name = ''get_ticker_ohlcv'',
      arguments = JObj [(''ticker'', JObj [(''toString'', JNum ''1'')]),
                        (''infoType'', JStr ''close''), (''date'', JStr ''2024-01-02'')]\<rparr>
     ''demo'' (\<lambda>url. Resolved sampleSeries) =
   Inl (TypeError ''Cannot convert object to primitive value'')
   \<and> handleGetTickerDividend \<lparr>name = ''get_ticker_dividend'', arguments = JUndefined\<rparr>
     ''demo'' (\<lambda>url. Resolved (JObj [(''data'', JArr [])])) =
   Inl (TypeError (''Cannot destructure property '' @ quoted ''ticker'' @ '' of '' @
          quoted ''req.params.arguments'' @ '' as it is undefined.''))"
  by (simp add: handleGetTickerOhlcv_def handleGetTickerDividend_def destructure_def
        nullish_def field_def ohlcvTry_def ohlcvCatch_def)

subsection \<open>C2: the text of a successful OHLCV lookup\<close>




subsection \<open>C3: the empty date resolves to the first key of the time series\<close>

text \<open>
  C3. For the OHLCV handler, when the date given is the empty string, \<^verbatim>\<open>actualDate\<close> is the
  first key of the \<^verbatim>\<open>Time Series (Daily)\<close> object of the response, whatever the keys
  that follow it: nothing is sorted. The handler then answers the empty date as it
  answers that key.
\<close>

theorem resolveDate_first_key:
  assumes series: "map_of body ''Time Series (Daily)'' = Some (JObj ((k, v) # rest))"
  shows "resolveDate (JStr []) (JObj body) = Inr (JStr k)
       \<and> (up (ohlcvUrl ticker apiKey) = Resolved (JObj body) \<longrightarrow>
            handleGetTickerOhlcv (ohlcvRequest ticker infoType []) apiKey up =
            handleGetTickerOhlcv (ohlcvRequest ticker infoType k) apiKey up)"
proof (intro conjI impI)
  show first: "resolveDate (JStr []) (JObj body) = Inr (JStr k)"
    by (simp add: resolveDate_sentinel [OF series] first_def)
  have same: "resolveDate (JStr k) (JObj body) = resolveDate (JStr []) (JObj body)"
    by (cases "k = []") (simp_all add: first resolveDate_given)
  assume "up (ohlcvUrl ticker apiKey) = Resolved (JObj body)"
  then have "ohlcvTry (JStr ticker) (JStr infoType) (JStr []) apiKey up =
             ohlcvTry (JStr ticker) (JStr infoType) (JStr k) apiKey up"
    by (simp add: ohlcvTry_def fetch_resolved same)
  then show "handleGetTickerOhlcv (ohlcvRequest ticker infoType []) apiKey up =
         handleGetTickerOhlcv (ohlcvRequest ticker infoType k) apiKey up"
    by (simp add: ohlcv_typed)
qed

text \<open>
  The example of the specification: the first key of the sample series is 2024-01-02, and
  the closing price asked for with the empty date is that of 2024-01-02.
\<close>

theorem resolveDate_first_key_witness:
  "resolveDate (JStr []) sampleSeries = Inr (JStr ''2024-01-02'')
   \<and> handleGetTickerOhlcv (ohlcvRequest ''AAPL'' ''close'' []) ''demo''
       (\<lambda>url. Resolved sampleSeries) =
     handleGetTickerOhlcv (ohlcvRequest ''AAPL'' ''close'' ''2024-01-02'') ''demo''
       (\<lambda>url. Resolved sampleSeries)"
proof -
  let ?entry = "JObj [(''1. open'', JStr ''187.15''), (''2. high'', JStr ''188.44''),
    (''3. low'', JStr ''183.89''), (''4. close'', JStr ''185.64''),
    (''5. volume'', JStr ''82488700'')]"
  let ?rest = "[(''2023-12-29'',
    JObj [(''1. open'', JStr ''193.90''), (''2. high'', JStr ''194.40''),
          (''3. low'', JStr ''191.73''), (''4. close'', JStr ''192.53''),
          (''5. volume'', JStr ''42672100'')])]"
  let ?body = "[(''Meta Data'', JObj [(''2. Symbol'', JStr ''AAPL'')]),
    (''Time Series (Daily)'', JObj ((''2024-01-02'', ?entry) # ?rest))]"
  have sample: "sampleSeries = JObj ?body"
    by (simp add: sampleSeries_def)
  have series: "map_of ?body ''Time Series (Daily)'' = Some (JObj ((''2024-01-02'', ?entry) # ?rest))"
    by simp
  from resolveDate_first_key [where up = "\<lambda>url. Resolved sampleSeries" and ticker = "''AAPL''"
      and infoType = "''close''" and apiKey = "''demo''", OF series]
  show ?thesis
    by (simp add: sample)
qed

subsection \<open>C4: an unregistered tool name\<close>



subsection \<open>C5: an unrecognised infoType\<close>





subsection \<open>C6: no record at the resolved date\<close>



subsection \<open>C7: the dividend history\<close>



subsection \<open>C8: the API key\<close>

text \<open>
  C8. When the API key is absent or empty the dispatcher throws, with the message
  \<^verbatim>\<open>ALPHAVANTAGE_API_KEY is not set\<close>, before it looks at the tool name: whatever the
  request and whatever the upstream service would answer, no handler runs, and what
  comes out is a thrown error and no tool result, unlike the results for an unknown
  tool or for missing data.
\<close>

theorem missing_api_key_throws:
  "callToolHandler None req up = Inl (newError ''ALPHAVANTAGE_API_KEY is not set'')
   \<and> callToolHandler (Some []) req up = Inl (newError ''ALPHAVANTAGE_API_KEY is not set'')
   \<and> callToolHandler None req up \<noteq> Inr result
   \<and> callToolHandler (Some []) req up \<noteq> Inr result"
  by (simp add: callToolHandler_def)

subsection \<open>C9: an exchange rate object without the rate\<close>



subsection \<open>C10: a response without the time series\<close>




end
